theory Spec2Isabelle
  imports Main
begin

section \<open>Python values\<close>

text \<open>
  The chain context stores arbitrary Python objects (\<^verbatim>\<open>context: Dict\<close>) and the resolvers take
  \<^verbatim>\<open>Any\<close>. The model covers the values below: \<^verbatim>\<open>None\<close>, \<^verbatim>\<open>bool\<close>, \<^verbatim>\<open>int\<close> (unbounded),
  \<^verbatim>\<open>str\<close>, \<^verbatim>\<open>list\<close>, \<^verbatim>\<open>tuple\<close>, \<^verbatim>\<open>dict\<close> (its items in insertion order), built-in function
  objects, and the objects \<^verbatim>\<open>exit\<close> and \<^verbatim>\<open>quit\<close> that the module \<^verbatim>\<open>site\<close> puts among the
  builtins when the interpreter starts. A \<^verbatim>\<open>str\<close> is a list of characters with code points
  below 256. Which object a value is (its identity) is not part of the model.
\<close>

datatype pyval =
    PNone
  | PBool bool
  | PInt int
  | PStr string
  | PList "pyval list"
  | PTuple "pyval list"
  | PDict "(pyval \<times> pyval) list"
  | PBuiltin string
  | PQuitter string

subsection \<open>\<^verbatim>\<open>str()\<close> and \<^verbatim>\<open>repr()\<close>\<close>

definition digit_char :: "nat \<Rightarrow> char" where
  "digit_char d = char_of (of_char (CHR ''0'') + d)"

fun str_nat :: "nat \<Rightarrow> string" where
  "str_nat n = (if n < 10 then [digit_char n] else str_nat (n div 10) @ [digit_char (n mod 10)])"

declare str_nat.simps [simp del]

definition str_int :: "int \<Rightarrow> string" where
  "str_int i = (if i < 0 then CHR ''-'' # str_nat (nat (- i)) else str_nat (nat i))"

definition hex_char :: "nat \<Rightarrow> char" where
  "hex_char d = (if d < 10 then digit_char d else char_of (of_char (CHR ''a'') + (d - 10)))"

text \<open>
  \<^verbatim>\<open>repr\<close> of a string: single quotes unless the string holds a single quote and no double
  quote; the quote and the backslash are escaped, tab, newline and carriage return are
  written \<^verbatim>\<open>\t\<close>, \<^verbatim>\<open>\n\<close>, \<^verbatim>\<open>\r\<close>, and every other non-printable character is written
  \<^verbatim>\<open>\xhh\<close>.
\<close>

definition printable :: "char \<Rightarrow> bool" where
  "printable c = (let n = (of_char c :: nat) in
     (32 \<le> n \<and> n < 127) \<or> (161 \<le> n \<and> n \<noteq> 173))"

definition repr_char :: "char \<Rightarrow> char \<Rightarrow> string" where
  "repr_char q c =
     (if c = q \<or> c = CHR 0x5C then [CHR 0x5C, c]
      else if c = CHR 0x09 then [CHR 0x5C, CHR ''t'']
      else if c = CHR 0x0A then [CHR 0x5C, CHR ''n'']
      else if c = CHR 0x0D then [CHR 0x5C, CHR ''r'']
      else if printable c then [c]
      else [CHR 0x5C, CHR ''x'', hex_char (of_char c div 16), hex_char (of_char c mod 16)])"

definition repr_str :: "string \<Rightarrow> string" where
  "repr_str s =
     (let q = (if CHR 0x27 \<in> set s \<and> CHR 0x22 \<notin> set s then CHR 0x22 else CHR 0x27)
      in q # concat (map (repr_char q) s) @ [q])"

fun join :: "string \<Rightarrow> string list \<Rightarrow> string" where
  "join sep [] = []"
| "join sep [x] = x"
| "join sep (x # y # ys) = x @ sep @ join sep (y # ys)"

text \<open>
  A tuple of one element is written with a comma behind the element. The text of \<^verbatim>\<open>exit\<close>
  and \<^verbatim>\<open>quit\<close> is the one of a POSIX system.
\<close>

function py_repr :: "pyval \<Rightarrow> string"
  and repr_elems :: "pyval list \<Rightarrow> string list"
  and repr_items :: "(pyval \<times> pyval) list \<Rightarrow> string list" where
  "py_repr PNone = ''None''"
| "py_repr (PBool b) = (if b then ''True'' else ''False'')"
| "py_repr (PInt i) = str_int i"
| "py_repr (PStr s) = repr_str s"
| "py_repr (PList xs) = ''['' @ join '', '' (repr_elems xs) @ '']''"
| "py_repr (PTuple xs) =
     ''('' @ join '', '' (repr_elems xs) @ (if length xs = 1 then '',)'' else '')'')"
| "py_repr (PDict kvs) = ''{'' @ join '', '' (repr_items kvs) @ ''}''"
| "py_repr (PBuiltin n) = ''<built-in function '' @ n @ ''>''"
| "py_repr (PQuitter n) = ''Use '' @ n @ ''() or Ctrl-D (i.e. EOF) to exit''"
| "repr_elems [] = []"
| "repr_elems (x # xs) = py_repr x # repr_elems xs"
| "repr_items [] = []"
| "repr_items ((k, v) # kvs) = (py_repr k @ '': '' @ py_repr v) # repr_items kvs"
  by pat_completeness auto
termination
  by (relation "measure (\<lambda>x. case x of Inl v \<Rightarrow> size v
        | Inr (Inl xs) \<Rightarrow> size_list size xs
        | Inr (Inr kvs) \<Rightarrow> size_list (size_prod size size) kvs)") auto

text \<open>\<^verbatim>\<open>str(v)\<close> is \<^verbatim>\<open>repr(v)\<close> except on a string, which is returned as it is.\<close>

definition py_str :: "pyval \<Rightarrow> string" where
  "py_str v = (case v of PStr s \<Rightarrow> s | _ \<Rightarrow> py_repr v)"

section \<open>The expression evaluator\<close>

text \<open>
  \<^verbatim>\<open>_resolve_fstring\<close> hands every placeholder to Python's \<^verbatim>\<open>eval(expression, {}, self.context)\<close>.
  \<^verbatim>\<open>eval\<close> belongs to the language, not to the repository; what follows is its documented
  behaviour on a fragment of the expression syntax: names written in ASCII, decimal integer
  literals, \<^verbatim>\<open>True\<close>, \<^verbatim>\<open>False\<close>, \<^verbatim>\<open>None\<close>, parentheses, unary \<^verbatim>\<open>+\<close> and \<^verbatim>\<open>-\<close>, binary \<^verbatim>\<open>+\<close>, \<^verbatim>\<open>-\<close>
  and \<^verbatim>\<open>/\<close>, calls without arguments, blanks and a trailing comment. Where an expression
  or its value lies outside the fragment (a character that is not ASCII, another operator,
  a call with arguments, a \<^verbatim>\<open>float\<close>) the model gives no answer (\<open>None\<close>) rather than a
  guessed one. The interpreter's resource limits (nesting depth, recursion, memory, the
  digit limit of integer conversions) are left out.
\<close>

subsection \<open>Tokens\<close>

datatype token =
  TName string | TInt nat | TConst pyval | TPlus | TMinus | TSlash | TLPar | TRPar

definition is_digit :: "char \<Rightarrow> bool" where
  "is_digit c = (let n = (of_char c :: nat) in 48 \<le> n \<and> n \<le> 57)"

definition is_name_start :: "char \<Rightarrow> bool" where
  "is_name_start c = (let n = (of_char c :: nat) in
     (65 \<le> n \<and> n \<le> 90) \<or> (97 \<le> n \<and> n \<le> 122) \<or> n = 95)"

definition is_name_char :: "char \<Rightarrow> bool" where
  "is_name_char c = (is_name_start c \<or> is_digit c)"

text \<open>
  The keywords of Python 3 (from version 3.7 on). \<^verbatim>\<open>__debug__\<close> is no keyword, but the
  compiler replaces it by a constant and never looks it up, so it is kept apart from the
  names as well.

  An identifier of Python may hold letters beyond ASCII, which the compiler normalises
  (NFKC) before the name is looked up. Such identifiers are outside the fragment:
  \<open>is_ascii_identifier\<close> holds for the identifiers made of the ASCII letters, the digits
  and the underscore only, and \<open>is_ascii_name\<close> for those of them that are neither a
  keyword nor \<^verbatim>\<open>__debug__\<close>.
\<close>

definition kwlist :: "string list" where
  "kwlist = [''False'', ''None'', ''True'', ''and'', ''as'', ''assert'', ''async'', ''await'',
     ''break'', ''class'', ''continue'', ''def'', ''del'', ''elif'', ''else'', ''except'',
     ''finally'', ''for'', ''from'', ''global'', ''if'', ''import'', ''in'', ''is'', ''lambda'',
     ''nonlocal'', ''not'', ''or'', ''pass'', ''raise'', ''return'', ''try'', ''while'', ''with'',
     ''yield'']"

definition is_ascii_identifier :: "string \<Rightarrow> bool" where
  "is_ascii_identifier s =
     (case s of [] \<Rightarrow> False | c # cs \<Rightarrow> is_name_start c \<and> list_all is_name_char cs)"

definition is_ascii_name :: "string \<Rightarrow> bool" where
  "is_ascii_name s = (is_ascii_identifier s \<and> s \<notin> set kwlist \<and> s \<noteq> ''__debug__'')"

definition word_token :: "string \<Rightarrow> token option" where
  "word_token w =
     (if w = ''True'' then Some (TConst (PBool True))
      else if w = ''False'' then Some (TConst (PBool False))
      else if w = ''None'' then Some (TConst PNone)
      else if w \<in> set kwlist \<or> w = ''__debug__'' then None
      else Some (TName w))"

fun nat_of_digits :: "nat \<Rightarrow> string \<Rightarrow> nat" where
  "nat_of_digits acc [] = acc"
| "nat_of_digits acc (c # cs) = nat_of_digits (10 * acc + (of_char c - 48)) cs"

text \<open>
  A comment runs to the end of the line; the fragment has one line only, so a comment
  ends the expression. A NUL character is refused by the compiler even inside a comment.
\<close>

definition comment_ok :: "string \<Rightarrow> bool" where
  "comment_ok cs = list_all (\<lambda>c. c \<noteq> CHR 0x0A \<and> c \<noteq> CHR 0x0D \<and> c \<noteq> CHR 0x00) cs"

function tokenize :: "string \<Rightarrow> token list option" where
  "tokenize [] = Some []"
| "tokenize (c # cs) =
     (if c = CHR '' '' \<or> c = CHR 0x09 then tokenize cs
      else if c = CHR ''#'' then (if comment_ok cs then Some [] else None)
      else if is_name_start c then
        (case word_token (c # takeWhile is_name_char cs) of
           None \<Rightarrow> None
         | Some t \<Rightarrow> map_option (Cons t) (tokenize (dropWhile is_name_char cs)))
      else if is_digit c then
        (case dropWhile is_digit cs of
           [] \<Rightarrow> if c = CHR ''0'' \<and> cs \<noteq> [] then None
                 else Some [TInt (nat_of_digits 0 (c # cs))]
         | d # ds \<Rightarrow>
             if is_name_char d \<or> d = CHR ''.'' \<or> (c = CHR ''0'' \<and> takeWhile is_digit cs \<noteq> []) then None
             else map_option (Cons (TInt (nat_of_digits 0 (c # takeWhile is_digit cs))))
                    (tokenize (d # ds)))
      else if c = CHR ''+'' then map_option (Cons TPlus) (tokenize cs)
      else if c = CHR ''-'' then map_option (Cons TMinus) (tokenize cs)
      else if c = CHR ''/'' then
        (case cs of
           [] \<Rightarrow> Some [TSlash]
         | d # ds \<Rightarrow> if d = CHR ''/'' then None else map_option (Cons TSlash) (tokenize cs))
      else if c = CHR ''('' then map_option (Cons TLPar) (tokenize cs)
      else if c = CHR '')'' then map_option (Cons TRPar) (tokenize cs)
      else None)"
  by pat_completeness auto
termination
proof (relation "measure length")
  fix c :: char and cs :: string and d ds
  assume "dropWhile is_digit cs = d # ds"
  then have "length (d # ds) \<le> length cs"
    by (metis length_dropWhile_le)
  then show "(d # ds, c # cs) \<in> measure length" by simp
qed (auto simp: le_imp_less_Suc length_dropWhile_le)

subsection \<open>Syntax\<close>

datatype expr =
    Name string
  | Num nat
  | Const pyval
  | UAdd expr
  | USub expr
  | Add expr expr
  | Sub expr expr
  | Div expr expr
  | Call expr

text \<open>
  The parser reads the tokens from left to right with a stack of pending operators and a
  stack of finished operands. A call binds tightest and is put around the operand just
  read; unary operators bind tighter than \<^verbatim>\<open>/\<close>, which binds tighter than binary \<^verbatim>\<open>+\<close> and
  \<^verbatim>\<open>-\<close>; the binary operators associate to the left. \<open>None\<close> is a syntax error.
\<close>

datatype pending = OLPar | OUAdd | OUSub | OAdd | OSub | ODiv

fun apply_pending :: "pending \<Rightarrow> expr list \<Rightarrow> expr list option" where
  "apply_pending OUAdd (e # es) = Some (UAdd e # es)"
| "apply_pending OUSub (e # es) = Some (USub e # es)"
| "apply_pending OAdd (r # l # es) = Some (Add l r # es)"
| "apply_pending OSub (r # l # es) = Some (Sub l r # es)"
| "apply_pending ODiv (r # l # es) = Some (Div l r # es)"
| "apply_pending _ _ = None"

fun binds_tight :: "pending \<Rightarrow> bool" where
  "binds_tight OUAdd = True"
| "binds_tight OUSub = True"
| "binds_tight ODiv = True"
| "binds_tight _ = False"

fun reduce :: "pending list \<Rightarrow> expr list \<Rightarrow> (pending list \<times> expr list) option" where
  "reduce [] es = Some ([], es)"
| "reduce (OLPar # ops) es = Some (OLPar # ops, es)"
| "reduce (p # ops) es = (case apply_pending p es of None \<Rightarrow> None | Some es' \<Rightarrow> reduce ops es')"

fun reduce_tight :: "pending list \<Rightarrow> expr list \<Rightarrow> (pending list \<times> expr list) option" where
  "reduce_tight [] es = Some ([], es)"
| "reduce_tight (p # ops) es =
     (if binds_tight p
      then (case apply_pending p es of None \<Rightarrow> None | Some es' \<Rightarrow> reduce_tight ops es')
      else Some (p # ops, es))"

fun parse_operand :: "token list \<Rightarrow> pending list \<Rightarrow> expr list \<Rightarrow> expr option"
  and parse_operator :: "token list \<Rightarrow> pending list \<Rightarrow> expr list \<Rightarrow> expr option" where
  "parse_operand [] ops es = None"
| "parse_operand (TName n # ts) ops es = parse_operator ts ops (Name n # es)"
| "parse_operand (TInt n # ts) ops es = parse_operator ts ops (Num n # es)"
| "parse_operand (TConst v # ts) ops es = parse_operator ts ops (Const v # es)"
| "parse_operand (TPlus # ts) ops es = parse_operand ts (OUAdd # ops) es"
| "parse_operand (TMinus # ts) ops es = parse_operand ts (OUSub # ops) es"
| "parse_operand (TLPar # ts) ops es = parse_operand ts (OLPar # ops) es"
| "parse_operand (TSlash # ts) ops es = None"
| "parse_operand (TRPar # ts) ops es = None"
| "parse_operator [] ops es =
     (case reduce ops es of Some ([], [e]) \<Rightarrow> Some e | _ \<Rightarrow> None)"
| "parse_operator (TPlus # ts) ops es =
     (case reduce ops es of None \<Rightarrow> None | Some (ops', es') \<Rightarrow> parse_operand ts (OAdd # ops') es')"
| "parse_operator (TMinus # ts) ops es =
     (case reduce ops es of None \<Rightarrow> None | Some (ops', es') \<Rightarrow> parse_operand ts (OSub # ops') es')"
| "parse_operator (TSlash # ts) ops es =
     (case reduce_tight ops es of None \<Rightarrow> None | Some (ops', es') \<Rightarrow> parse_operand ts (ODiv # ops') es')"
| "parse_operator (TRPar # ts) ops es =
     (case reduce ops es of Some (OLPar # ops', es') \<Rightarrow> parse_operator ts ops' es' | _ \<Rightarrow> None)"
| "parse_operator (TLPar # TRPar # ts) ops (e # es) = parse_operator ts ops (Call e # es)"
| "parse_operator (_ # ts) ops es = None"

text \<open>
  With these tokens Python has two more forms: a call with arguments, an operand directly
  followed by an opening parenthesis that is not closed at once, and the empty tuple
  \<^verbatim>\<open>()\<close>, a pair of parentheses where an operand is due. Both are outside the fragment.
  The flag says whether the token before was the end of an operand.
\<close>

fun ends_operand :: "token \<Rightarrow> bool" where
  "ends_operand (TName _) = True"
| "ends_operand (TInt _) = True"
| "ends_operand (TConst _) = True"
| "ends_operand TRPar = True"
| "ends_operand _ = False"

fun outside_fragment :: "bool \<Rightarrow> token list \<Rightarrow> bool" where
  "outside_fragment b [] = False"
| "outside_fragment b (TLPar # TRPar # ts) = (\<not> b \<or> outside_fragment True ts)"
| "outside_fragment b (TLPar # ts) = (b \<or> outside_fragment False ts)"
| "outside_fragment b (t # ts) = outside_fragment (ends_operand t) ts"

subsection \<open>Exceptions and evaluation\<close>

text \<open>
  The exceptions that the fragment can raise. \<^verbatim>\<open>NameError\<close>, \<^verbatim>\<open>SyntaxError\<close>, \<^verbatim>\<open>TypeError\<close> and
  \<^verbatim>\<open>ZeroDivisionError\<close> are instances of \<^verbatim>\<open>Exception\<close>; \<^verbatim>\<open>SystemExit\<close> derives from
  \<^verbatim>\<open>BaseException\<close> only. \<^verbatim>\<open>NameError\<close> carries the name and \<^verbatim>\<open>TypeError\<close> its message; the
  messages of \<^verbatim>\<open>SyntaxError\<close> and \<^verbatim>\<open>ZeroDivisionError\<close> differ between versions of the
  interpreter and are left out.
\<close>

datatype exc = NameError string | SyntaxError | TypeError string | ZeroDivisionError | SystemExit

fun is_Exception :: "exc \<Rightarrow> bool" where
  "is_Exception SystemExit = False"
| "is_Exception _ = True"

definition py_compile :: "string \<Rightarrow> (exc + expr) option" where
  "py_compile source =
     (case tokenize source of
        None \<Rightarrow> None
      | Some ts \<Rightarrow>
          if outside_fragment False ts then None
          else (case parse_operand ts [] [] of
                  None \<Rightarrow> Some (Inl SyntaxError)
                | Some e \<Rightarrow> Some (Inr e)))"

fun type_name :: "pyval \<Rightarrow> string" where
  "type_name PNone = ''NoneType''"
| "type_name (PBool _) = ''bool''"
| "type_name (PInt _) = ''int''"
| "type_name (PStr _) = ''str''"
| "type_name (PList _) = ''list''"
| "type_name (PTuple _) = ''tuple''"
| "type_name (PDict _) = ''dict''"
| "type_name (PBuiltin _) = ''builtin_function_or_method''"
| "type_name (PQuitter _) = ''Quitter''"

fun as_int :: "pyval \<Rightarrow> int option" where
  "as_int (PInt i) = Some i"
| "as_int (PBool b) = Some (if b then 1 else 0)"
| "as_int _ = None"

definition quoted :: "char \<Rightarrow> string \<Rightarrow> string" where
  "quoted q s = q # s @ [q]"

definition unsupported :: "string \<Rightarrow> pyval \<Rightarrow> pyval \<Rightarrow> exc" where
  "unsupported opr a b = TypeError (''unsupported operand type(s) for '' @ opr @ '': ''
     @ quoted (CHR 0x27) (type_name a) @ '' and '' @ quoted (CHR 0x27) (type_name b))"

definition only_concatenate :: "string \<Rightarrow> pyval \<Rightarrow> exc" where
  "only_concatenate t b = TypeError (''can only concatenate '' @ t @ '' (not ''
     @ quoted (CHR 0x22) (type_name b) @ '') to '' @ t)"

definition bad_unary :: "string \<Rightarrow> pyval \<Rightarrow> exc" where
  "bad_unary opr a = TypeError (''bad operand type for unary '' @ opr @ '': ''
     @ quoted (CHR 0x27) (type_name a))"

definition not_callable :: "pyval \<Rightarrow> exc" where
  "not_callable a = TypeError (quoted (CHR 0x27) (type_name a) @ '' object is not callable'')"

definition py_add :: "pyval \<Rightarrow> pyval \<Rightarrow> exc + pyval" where
  "py_add a b =
     (case (as_int a, as_int b) of
        (Some i, Some j) \<Rightarrow> Inr (PInt (i + j))
      | _ \<Rightarrow>
        (case a of
           PStr s \<Rightarrow> (case b of PStr t \<Rightarrow> Inr (PStr (s @ t)) | _ \<Rightarrow> Inl (only_concatenate ''str'' b))
         | PList xs \<Rightarrow> (case b of PList ys \<Rightarrow> Inr (PList (xs @ ys)) | _ \<Rightarrow> Inl (only_concatenate ''list'' b))
         | PTuple xs \<Rightarrow> (case b of PTuple ys \<Rightarrow> Inr (PTuple (xs @ ys)) | _ \<Rightarrow> Inl (only_concatenate ''tuple'' b))
         | _ \<Rightarrow> Inl (unsupported ''+'' a b)))"

definition py_sub :: "pyval \<Rightarrow> pyval \<Rightarrow> exc + pyval" where
  "py_sub a b =
     (case (as_int a, as_int b) of
        (Some i, Some j) \<Rightarrow> Inr (PInt (i - j))
      | _ \<Rightarrow> Inl (unsupported ''-'' a b))"

text \<open>
  The quotient of two integers is a \<^verbatim>\<open>float\<close>, which the model does not have: only the
  failures of \<^verbatim>\<open>/\<close> have an answer.
\<close>

definition py_truediv :: "pyval \<Rightarrow> pyval \<Rightarrow> (exc + pyval) option" where
  "py_truediv a b =
     (case (as_int a, as_int b) of
        (Some i, Some j) \<Rightarrow> if j = 0 then Some (Inl ZeroDivisionError) else None
      | _ \<Rightarrow> Some (Inl (unsupported ''/'' a b)))"

definition py_pos :: "pyval \<Rightarrow> exc + pyval" where
  "py_pos a = (case as_int a of Some i \<Rightarrow> Inr (PInt i) | None \<Rightarrow> Inl (bad_unary ''+'' a))"

definition py_neg :: "pyval \<Rightarrow> exc + pyval" where
  "py_neg a = (case as_int a of Some i \<Rightarrow> Inr (PInt (- i)) | None \<Rightarrow> Inl (bad_unary ''-'' a))"

text \<open>
  A call without arguments: \<^verbatim>\<open>exit()\<close> and \<^verbatim>\<open>quit()\<close> raise \<^verbatim>\<open>SystemExit\<close> (and close the
  standard input, which the model does not have); what a built-in function does without
  arguments differs from one function to the next and has no answer here; every other
  value of the model is not callable.
\<close>

definition py_call :: "pyval \<Rightarrow> (exc + pyval) option" where
  "py_call f =
     (case f of
        PQuitter _ \<Rightarrow> Some (Inl SystemExit)
      | PBuiltin _ \<Rightarrow> None
      | _ \<Rightarrow> Some (Inl (not_callable f)))"

text \<open>
  A name is looked up in the locals, then in the globals, then among the builtins; a name
  found nowhere raises \<^verbatim>\<open>NameError\<close>. The builtins are a namespace of the interpreter
  (the module \<^verbatim>\<open>builtins\<close>), which a program may extend.
\<close>

type_synonym namespace = "string \<rightharpoonup> pyval"

definition load_name :: "(string \<times> pyval) list \<Rightarrow> namespace \<Rightarrow> namespace \<Rightarrow> string \<Rightarrow> exc + pyval" where
  "load_name builtins globals locals n =
     (case locals n of
        Some v \<Rightarrow> Inr v
      | None \<Rightarrow>
        (case globals n of
           Some v \<Rightarrow> Inr v
         | None \<Rightarrow>
           (case map_of builtins n of
              Some v \<Rightarrow> Inr v
            | None \<Rightarrow> Inl (NameError n))))"

text \<open>
  The operands are evaluated from left to right and the first exception ends the
  evaluation. A call whose callee is written as a literal makes the compiler print a
  warning and has no answer here.
\<close>

fun eval_expr :: "(string \<times> pyval) list \<Rightarrow> namespace \<Rightarrow> namespace \<Rightarrow> expr \<Rightarrow> (exc + pyval) option" where
  "eval_expr bi g l (Name n) = Some (load_name bi g l n)"
| "eval_expr bi g l (Num n) = Some (Inr (PInt (int n)))"
| "eval_expr bi g l (Const v) = Some (Inr v)"
| "eval_expr bi g l (UAdd e) =
     (case eval_expr bi g l e of
        None \<Rightarrow> None | Some (Inl x) \<Rightarrow> Some (Inl x) | Some (Inr v) \<Rightarrow> Some (py_pos v))"
| "eval_expr bi g l (USub e) =
     (case eval_expr bi g l e of
        None \<Rightarrow> None | Some (Inl x) \<Rightarrow> Some (Inl x) | Some (Inr v) \<Rightarrow> Some (py_neg v))"
| "eval_expr bi g l (Add a b) =
     (case eval_expr bi g l a of
        None \<Rightarrow> None
      | Some (Inl x) \<Rightarrow> Some (Inl x)
      | Some (Inr v) \<Rightarrow>
          (case eval_expr bi g l b of
             None \<Rightarrow> None | Some (Inl x) \<Rightarrow> Some (Inl x) | Some (Inr w) \<Rightarrow> Some (py_add v w)))"
| "eval_expr bi g l (Sub a b) =
     (case eval_expr bi g l a of
        None \<Rightarrow> None
      | Some (Inl x) \<Rightarrow> Some (Inl x)
      | Some (Inr v) \<Rightarrow>
          (case eval_expr bi g l b of
             None \<Rightarrow> None | Some (Inl x) \<Rightarrow> Some (Inl x) | Some (Inr w) \<Rightarrow> Some (py_sub v w)))"
| "eval_expr bi g l (Div a b) =
     (case eval_expr bi g l a of
        None \<Rightarrow> None
      | Some (Inl x) \<Rightarrow> Some (Inl x)
      | Some (Inr v) \<Rightarrow>
          (case eval_expr bi g l b of
             None \<Rightarrow> None | Some (Inl x) \<Rightarrow> Some (Inl x) | Some (Inr w) \<Rightarrow> py_truediv v w))"
| "eval_expr bi g l (Call (Num n)) = None"
| "eval_expr bi g l (Call (Const v)) = None"
| "eval_expr bi g l (Call f) =
     (case eval_expr bi g l f of
        None \<Rightarrow> None | Some (Inl x) \<Rightarrow> Some (Inl x) | Some (Inr v) \<Rightarrow> py_call v)"

text \<open>
  \<^verbatim>\<open>eval(expression, globals, locals)\<close>: when \<^verbatim>\<open>globals\<close> has no key \<^verbatim>\<open>__builtins__\<close>, the
  dictionary of the builtins is stored under that key before the expression is compiled.
  The case of a caller who supplies \<^verbatim>\<open>__builtins__\<close> does not occur here and is not
  modelled.
\<close>

definition builtins_dict :: "(string \<times> pyval) list \<Rightarrow> pyval" where
  "builtins_dict bi = PDict (map (\<lambda>(n, v). (PStr n, v)) bi)"

definition py_eval :: "(string \<times> pyval) list \<Rightarrow> string \<Rightarrow> namespace \<Rightarrow> namespace \<Rightarrow> (exc + pyval) option" where
  "py_eval bi expression globals locals =
     (case globals ''__builtins__'' of
        Some _ \<Rightarrow> None
      | None \<Rightarrow>
        (case py_compile expression of
           None \<Rightarrow> None
         | Some (Inl x) \<Rightarrow> Some (Inl x)
         | Some (Inr e) \<Rightarrow>
             eval_expr bi (globals(''__builtins__'' \<mapsto> builtins_dict bi)) locals e))"

text \<open>
  Some of the objects that the module \<^verbatim>\<open>builtins\<close> holds in an interpreter started in the
  usual way: built-in functions, and \<^verbatim>\<open>exit\<close> and \<^verbatim>\<open>quit\<close>.
\<close>

definition python_builtins :: "(string \<times> pyval) list" where
  "python_builtins = map (\<lambda>n. (n, PBuiltin n))
       [''abs'', ''all'', ''any'', ''len'', ''max'', ''min'', ''print'', ''repr'', ''sorted'', ''sum'']
     @ [(''exit'', PQuitter ''exit''), (''quit'', PQuitter ''quit'')]"

section \<open>The chain context\<close>

text \<open>
  \<^verbatim>\<open>ChainContextBase\<close> has the fields \<^verbatim>\<open>steps\<close>, \<^verbatim>\<open>context\<close> and \<^verbatim>\<open>resource\<close>. The class of the
  steps is not part of the sources at hand and no operation below looks inside a step.
  The keys of \<^verbatim>\<open>context\<close> that matter are strings: \<^verbatim>\<open>update\<close> takes keyword arguments and
  the evaluator looks names up.
\<close>

typedecl ChainStep

record ChainContextBase =
  steps :: "ChainStep list"
  "context" :: "string \<rightharpoonup> pyval"
  resource :: "string option"


definition get_value :: "ChainContextBase \<Rightarrow> string \<Rightarrow> pyval" where
  "get_value self key = (case context self key of None \<Rightarrow> PNone | Some v \<Rightarrow> v)"

subsection \<open>\<^verbatim>\<open>_resolve_ref\<close>\<close>

text \<open>
  The methods \<^verbatim>\<open>_resolve_fstring\<close>, \<^verbatim>\<open>_resolve_placeholders\<close> and \<^verbatim>\<open>_resolve_ref\<close> are
  named here without their leading underscore.
\<close>

fun startswith :: "string \<Rightarrow> char \<Rightarrow> bool" where
  "startswith [] c = False"
| "startswith (x # xs) c = (x = c)"

definition resolve_ref :: "ChainContextBase \<Rightarrow> pyval \<Rightarrow> pyval" where
  "resolve_ref self v =
     (case v of
        PStr s \<Rightarrow> if startswith s (CHR ''$'') then PStr (drop 1 s) else v
      | _ \<Rightarrow> v)"

subsection \<open>\<^verbatim>\<open>_resolve_fstring\<close>\<close>

text \<open>
  The pattern \<^verbatim>\<open>{([^}]+)}\<close> matches at a position when an opening brace stands there, at
  least one character other than a closing brace follows, and the run of such characters
  ends at a closing brace. \<open>pattern_match\<close> is a match at the start of the text: it gives
  group 1 and the text behind the match.
\<close>

definition pattern_match :: "string \<Rightarrow> (string \<times> string) option" where
  "pattern_match s =
     (case s of
        [] \<Rightarrow> None
      | c # rest \<Rightarrow>
          if c = CHR ''{'' then
            (case dropWhile (\<lambda>x. x \<noteq> CHR ''}'') rest of
               [] \<Rightarrow> None
             | _ # tail \<Rightarrow>
                 if takeWhile (\<lambda>x. x \<noteq> CHR ''}'') rest = [] then None
                 else Some (takeWhile (\<lambda>x. x \<noteq> CHR ''}'') rest, tail))
          else None)"

text \<open>
  What \<^verbatim>\<open>replacer\<close> prints is recorded as a diagnostic: the line
  \<^verbatim>\<open>Failed to resolve expression: {expression}. Error: {e}\<close> with its two parts.

  A method either returns a value or lets an exception out to its caller; in both cases
  some diagnostics have been printed on the way. \<open>None\<close> stands for a run that met an
  expression outside the modelled fragment.
\<close>

datatype diagnostic = Failed_to_resolve string exc

datatype 'a result = Returned 'a | Raised exc

type_synonym 'a printed = "('a result \<times> diagnostic list) option"

text \<open>
  The handler \<^verbatim>\<open>except Exception\<close> catches the instances of \<^verbatim>\<open>Exception\<close>; any other
  exception passes through it.
\<close>

definition replacer :: "(string \<times> pyval) list \<Rightarrow> ChainContextBase \<Rightarrow> string \<Rightarrow> string printed" where
  "replacer bi self expression =
     (case py_eval bi expression Map.empty (context self) of
        None \<Rightarrow> None
      | Some (Inr v) \<Rightarrow> Some (Returned (py_str v), [])
      | Some (Inl e) \<Rightarrow>
          if is_Exception e
          then Some (Returned (''{'' @ expression @ ''}''), [Failed_to_resolve expression e])
          else Some (Raised e, []))"

text \<open>
  \<^verbatim>\<open>pattern.sub(repl, template)\<close> goes through the template from left to right, replaces
  every match by what \<open>repl\<close> returns for it and goes on behind the match; a character
  at which nothing matches is copied. \<open>followed_by\<close> puts two pieces of such a run one
  after the other: when the first lets an exception out, the second is never run.
\<close>

definition followed_by :: "'a list printed \<Rightarrow> 'a list printed \<Rightarrow> 'a list printed" where
  "followed_by a b =
     (case a of
        None \<Rightarrow> None
      | Some (Raised x, d) \<Rightarrow> Some (Raised x, d)
      | Some (Returned x, d) \<Rightarrow>
          (case b of
             None \<Rightarrow> None
           | Some (Raised y, e) \<Rightarrow> Some (Raised y, d @ e)
           | Some (Returned y, e) \<Rightarrow> Some (Returned (x @ y), d @ e)))"

function pattern_sub :: "(string \<Rightarrow> string printed) \<Rightarrow> string \<Rightarrow> string printed" where
  "pattern_sub repl [] = Some (Returned [], [])"
| "pattern_sub repl (c # rest) =
     (case pattern_match (c # rest) of
        Some (expression, tail) \<Rightarrow> followed_by (repl expression) (pattern_sub repl tail)
      | None \<Rightarrow> followed_by (Some (Returned [c], [])) (pattern_sub repl rest))"
  by pat_completeness auto
termination
proof (relation "measure (\<lambda>(repl, s). length s)")
  fix repl :: "string \<Rightarrow> string printed" and c :: char and rest x2 expression tail
  assume "pattern_match (c # rest) = Some x2" and "(expression, tail) = x2"
  then have "dropWhile (\<lambda>x. x \<noteq> CHR ''}'') rest = hd (dropWhile (\<lambda>x. x \<noteq> CHR ''}'') rest) # tail"
    by (auto simp: pattern_match_def split: if_splits list.splits)
  then have "length tail < length (dropWhile (\<lambda>x. x \<noteq> CHR ''}'') rest)"
    by (metis length_Cons lessI)
  then have "length tail < length (c # rest)"
    using length_dropWhile_le [of "\<lambda>x. x \<noteq> CHR ''}''" rest] by simp
  then show "((repl, tail), (repl, c # rest)) \<in> measure (\<lambda>(repl, s). length s)"
    by simp
qed auto

definition resolve_fstring :: "(string \<times> pyval) list \<Rightarrow> ChainContextBase \<Rightarrow> string \<Rightarrow> string printed" where
  "resolve_fstring bi self template = pattern_sub (replacer bi self) template"

subsection \<open>Placeholders in a template\<close>

text \<open>
  \<open>pattern_search\<close> is \<^verbatim>\<open>pattern.search(template) is not None\<close>: the template has a placeholder.
  \<open>pattern_findall\<close> is \<^verbatim>\<open>pattern.findall(template)\<close>: the expressions of the placeholders
  of the template, from left to right.
  A text is \<open>brace_closed\<close> when every opening brace in it has a closing brace behind it,
  so that no match of the pattern can reach beyond the end of the text.
\<close>

fun pattern_search :: "string \<Rightarrow> bool" where
  "pattern_search [] = False"
| "pattern_search (c # rest) = (pattern_match (c # rest) \<noteq> None \<or> pattern_search rest)"


fun brace_closed :: "string \<Rightarrow> bool" where
  "brace_closed [] = True"
| "brace_closed (c # s) = ((c = CHR ''{'' \<longrightarrow> CHR ''}'' \<in> set s) \<and> brace_closed s)"




subsection \<open>\<^verbatim>\<open>_resolve_placeholders\<close>\<close>

text \<open>\<open>wrapped\<close> puts a constructor around the value that a run returned.\<close>

definition wrapped :: "('a \<Rightarrow> 'b) \<Rightarrow> 'a printed \<Rightarrow> 'b printed" where
  "wrapped f r =
     (case r of
        None \<Rightarrow> None
      | Some (Raised x, d) \<Rightarrow> Some (Raised x, d)
      | Some (Returned v, d) \<Rightarrow> Some (Returned (f v), d))"

fun resolve_placeholders :: "(string \<times> pyval) list \<Rightarrow> ChainContextBase \<Rightarrow> pyval \<Rightarrow> pyval printed"
  and resolve_elems :: "(string \<times> pyval) list \<Rightarrow> ChainContextBase \<Rightarrow> pyval list \<Rightarrow> pyval list printed"
  and resolve_items :: "(string \<times> pyval) list \<Rightarrow> ChainContextBase \<Rightarrow> (pyval \<times> pyval) list
        \<Rightarrow> (pyval \<times> pyval) list printed" where
  "resolve_placeholders bi self (PStr s) = wrapped PStr (resolve_fstring bi self s)"
| "resolve_placeholders bi self (PDict kvs) = wrapped PDict (resolve_items bi self kvs)"
| "resolve_placeholders bi self (PList xs) = wrapped PList (resolve_elems bi self xs)"
| "resolve_placeholders bi self v = Some (Returned v, [])"
| "resolve_elems bi self [] = Some (Returned [], [])"
| "resolve_elems bi self (v # vs) =
     followed_by (wrapped (\<lambda>r. [r]) (resolve_placeholders bi self v)) (resolve_elems bi self vs)"
| "resolve_items bi self [] = Some (Returned [], [])"
| "resolve_items bi self ((k, v) # kvs) =
     followed_by (wrapped (\<lambda>r. [(k, r)]) (resolve_placeholders bi self v)) (resolve_items bi self kvs)"

subsection \<open>The results of a walk over a list\<close>

text \<open>
  \<open>collect\<close> puts the results of the elements of a list together, in the order of the
  list: the values as a list, and the diagnostics one after the other, up to the first
  element that lets an exception out.
\<close>

fun collect :: "'a printed list \<Rightarrow> 'a list printed" where
  "collect [] = Some (Returned [], [])"
| "collect (r # rs) = followed_by (wrapped (\<lambda>v. [v]) r) (collect rs)"

subsection \<open>Sample contexts\<close>

definition empty_context :: ChainContextBase where
  "empty_context = \<lparr>steps = [], context = Map.empty, resource = None\<rparr>"

definition xy_context :: ChainContextBase where
  "xy_context = \<lparr>steps = [], context = [''x'' \<mapsto> PInt 5, ''y'' \<mapsto> PInt 10], resource = None\<rparr>"

definition one_two_context :: ChainContextBase where
  "one_two_context = \<lparr>steps = [], context = [''x'' \<mapsto> PInt 1, ''y'' \<mapsto> PInt 2], resource = None\<rparr>"

definition nested_context :: ChainContextBase where
  "nested_context = \<lparr>steps = [], context = [''x'' \<mapsto> PStr ''{y}'', ''y'' \<mapsto> PInt 2], resource = None\<rparr>"

definition hyphen_context :: ChainContextBase where
  "hyphen_context = \<lparr>steps = [], context = [''user-id'' \<mapsto> PInt 7], resource = None\<rparr>"


section \<open>Properties of the substitution\<close>

lemma followed_by_unit [simp]:
  "followed_by (Some (Returned [], [])) b = b" "followed_by a (Some (Returned [], [])) = a"
  by (auto simp: followed_by_def split: option.splits result.splits)

lemma followed_by_None [simp]:
  "followed_by None b = None" "followed_by (Some (Returned x, d)) None = None"
  by (auto simp: followed_by_def split: option.splits result.splits)

lemma followed_by_Raised [simp]:
  "followed_by (Some (Raised z, d)) b = Some (Raised z, d)"
  "followed_by (Some (Returned x, d)) (Some (Raised z, e)) = Some (Raised z, d @ e)"
  by (auto simp: followed_by_def split: option.splits result.splits)

lemma followed_by_Some [simp]:
  "followed_by (Some (Returned x, d)) (Some (Returned y, e)) = Some (Returned (x @ y), d @ e)"
  by (simp add: followed_by_def)

lemma followed_by_assoc:
  "followed_by (followed_by a b) c = followed_by a (followed_by b c)"
  by (auto simp: followed_by_def split: option.splits result.splits)

lemma pattern_sub_no_match:
  "\<not> pattern_search t \<Longrightarrow> pattern_sub repl t = Some (Returned t, [])"
  by (induction t) (simp_all split: option.splits)

lemma brace_closed_suffix: "brace_closed (a @ b) \<Longrightarrow> brace_closed b"
  by (induction a) auto

lemma pattern_match_Cons:
  "pattern_match (c # rest) =
     (if c = CHR ''{'' then
        (case dropWhile (\<lambda>x. x \<noteq> CHR ''}'') rest of
           [] \<Rightarrow> None
         | _ # tail \<Rightarrow>
             if takeWhile (\<lambda>x. x \<noteq> CHR ''}'') rest = [] then None
             else Some (takeWhile (\<lambda>x. x \<noteq> CHR ''}'') rest, tail))
      else None)"
  by (simp add: pattern_match_def)

lemma pattern_match_SomeD:
  assumes "pattern_match s = Some (e, tail)"
  shows "s = CHR ''{'' # e @ CHR ''}'' # tail \<and> e \<noteq> [] \<and> CHR ''}'' \<notin> set e"
proof (cases s)
  case Nil
  with assms show ?thesis by (simp add: pattern_match_def)
next
  case (Cons c rest)
  let ?P = "\<lambda>x. x \<noteq> CHR ''}''"
  have c: "c = CHR ''{''"
  proof (rule ccontr)
    assume "c \<noteq> CHR ''{''"
    then have "pattern_match (c # rest) = None" by (simp add: pattern_match_Cons)
    with assms Cons show False by simp
  qed
  show ?thesis
  proof (cases "dropWhile ?P rest")
    case Nil
    have "pattern_match (c # rest) = None" unfolding pattern_match_Cons Nil by simp
    with assms Cons show ?thesis by simp
  next
    case d: (Cons b tl')
    have ne: "takeWhile ?P rest \<noteq> []"
    proof
      assume t0: "takeWhile ?P rest = []"
      have "pattern_match (c # rest) = None" unfolding pattern_match_Cons d t0 by simp
      with assms Cons show False by simp
    qed
    then have "pattern_match (c # rest) = Some (takeWhile ?P rest, tl')"
      unfolding pattern_match_Cons d c by simp
    with assms Cons have e: "e = takeWhile ?P rest" and t: "tail = tl'" by simp_all
    have "\<not> ?P (hd (dropWhile ?P rest))"
      by (rule hd_dropWhile) (simp add: d)
    then have b: "b = CHR ''}''" by (simp add: d)
    have "rest = takeWhile ?P rest @ dropWhile ?P rest" by simp
    then have r: "rest = e @ CHR ''}'' # tail" using e t b d by simp
    have "CHR ''}'' \<notin> set e" unfolding e by (auto dest: set_takeWhileD)
    with r c Cons ne e show ?thesis by simp
  qed
qed

lemma pattern_match_placeholder:
  assumes "e \<noteq> []" "CHR ''}'' \<notin> set e"
  shows "pattern_match (CHR ''{'' # e @ CHR ''}'' # tail) = Some (e, tail)"
proof -
  let ?P = "\<lambda>x. x \<noteq> CHR ''}''"
  have "takeWhile ?P (e @ CHR ''}'' # tail) = e"
    using assms(2) by (induction e) auto
  moreover have "dropWhile ?P (e @ CHR ''}'' # tail) = CHR ''}'' # tail"
    using assms(2) by (induction e) auto
  ultimately show ?thesis using assms(1) by (simp add: pattern_match_def)
qed

lemma pattern_match_append:
  assumes "pattern_match s = Some (e, tail)"
  shows "pattern_match (s @ t) = Some (e, tail @ t)"
proof -
  from pattern_match_SomeD [OF assms]
  have "s = CHR ''{'' # e @ CHR ''}'' # tail" "e \<noteq> []" "CHR ''}'' \<notin> set e" by auto
  then show ?thesis using pattern_match_placeholder [of e "tail @ t"] by simp
qed

lemma pattern_match_None_append:
  assumes "pattern_match (c # s) = None" "brace_closed (c # s)"
  shows "pattern_match (c # s @ t) = None"
proof (cases "c = CHR ''{''")
  case False
  then show ?thesis by (simp add: pattern_match_Cons)
next
  case True
  let ?P = "\<lambda>x. x \<noteq> CHR ''}''"
  from True assms(2) have mem: "CHR ''}'' \<in> set s" by simp
  then obtain b tl' where d: "dropWhile ?P s = b # tl'"
    by (cases "dropWhile ?P s") auto
  have t0: "takeWhile ?P s = []"
  proof (rule ccontr)
    assume "takeWhile ?P s \<noteq> []"
    then have "pattern_match (c # s) = Some (takeWhile ?P s, tl')"
      unfolding pattern_match_Cons d True by simp
    with assms(1) show False by simp
  qed
  from mem obtain x s' where s: "s = x # s'" by (cases s) auto
  with t0 have "x = CHR ''}''" by (simp split: if_splits)
  with s True show ?thesis by (simp add: pattern_match_Cons)
qed

lemma pattern_sub_append:
  "brace_closed pre \<Longrightarrow>
   pattern_sub repl (pre @ rest) = followed_by (pattern_sub repl pre) (pattern_sub repl rest)"
proof (induction repl pre rule: pattern_sub.induct)
  case (1 repl)
  then show ?case by simp
next
  case (2 repl c s)
  show ?case
  proof (cases "pattern_match (c # s)")
    case None
    from "2.prems" have "brace_closed s" by simp
    with None "2.IH"(1) have "pattern_sub repl (s @ rest) = followed_by (pattern_sub repl s) (pattern_sub repl rest)"
      by simp
    moreover have "pattern_match (c # s @ rest) = None"
      using None "2.prems" by (rule pattern_match_None_append)
    ultimately show ?thesis using None by (simp add: followed_by_assoc)
  next
    case (Some a)
    obtain e tail where a: "a = (e, tail)" by (cases a)
    from Some a have m: "pattern_match (c # s) = Some (e, tail)" by simp
    from pattern_match_SomeD [OF m] have "c # s = (CHR ''{'' # e @ [CHR ''}'']) @ tail" by simp
    with "2.prems" have "brace_closed tail" by (metis brace_closed_suffix)
    with "2.IH"(2) [OF m refl] have "pattern_sub repl (tail @ rest) = followed_by (pattern_sub repl tail) (pattern_sub repl rest)"
      by simp
    moreover have "pattern_match (c # s @ rest) = Some (e, tail @ rest)"
      using pattern_match_append [OF m, of rest] by simp
    ultimately show ?thesis using m by (simp add: followed_by_assoc)
  qed
qed

lemma pattern_sub_placeholder:
  assumes "e \<noteq> []" "CHR ''}'' \<notin> set e"
  shows "pattern_sub repl (CHR ''{'' # e @ CHR ''}'' # post) = followed_by (repl e) (pattern_sub repl post)"
  using pattern_match_placeholder [OF assms] by simp

lemma pattern_sub_empty_braces:
  "pattern_sub repl (CHR ''{'' # CHR ''}'' # post) = followed_by (Some (Returned ''{}'', [])) (pattern_sub repl post)"
proof -
  have "pattern_match (CHR ''{'' # CHR ''}'' # post) = None" "pattern_match (CHR ''}'' # post) = None"
    by (simp_all add: pattern_match_def)
  then show ?thesis
    by (simp add: followed_by_assoc [symmetric])
qed


section \<open>Names as placeholder expressions\<close>

lemma name_start_not_special:
  "is_name_start c \<Longrightarrow>
   c \<noteq> CHR '' '' \<and> c \<noteq> CHR 0x09 \<and> c \<noteq> CHR ''#'' \<and> c \<noteq> CHR ''}''"
  by (auto simp: is_name_start_def)

lemma name_char_not_brace: "is_name_char c \<Longrightarrow> c \<noteq> CHR ''}''"
  by (auto simp: is_name_char_def is_name_start_def is_digit_def)

lemma word_token_name: "is_ascii_name n \<Longrightarrow> word_token n = Some (TName n)"
  by (auto simp: is_ascii_name_def word_token_def kwlist_def)

lemma tokenize_name:
  assumes "is_ascii_name n"
  shows "tokenize n = Some [TName n]"
proof -
  from assms obtain c cs where n: "n = c # cs" and c: "is_name_start c" and cs: "list_all is_name_char cs"
    by (auto simp: is_ascii_name_def is_ascii_identifier_def split: list.splits)
  from cs have tw: "takeWhile is_name_char cs = cs" and dw: "dropWhile is_name_char cs = []"
    by (simp_all add: list_all_iff)
  from word_token_name [OF assms] n have "word_token (c # cs) = Some (TName (c # cs))" by simp
  then show ?thesis
    using name_start_not_special [OF c] c unfolding n
    by (simp add: tw dw)
qed

lemma py_compile_name: "is_ascii_name n \<Longrightarrow> py_compile n = Some (Inr (Name n))"
  by (simp add: py_compile_def tokenize_name)

lemma py_eval_name:
  "is_ascii_name n \<Longrightarrow> py_eval bi n Map.empty l =
     Some (load_name bi [''__builtins__'' \<mapsto> builtins_dict bi] l n)"
  by (simp add: py_eval_def py_compile_name)

lemma name_is_expression:
  assumes "is_ascii_name n"
  shows "n \<noteq> [] \<and> CHR ''}'' \<notin> set n"
proof -
  from assms obtain c cs where n: "n = c # cs" and c: "is_name_start c" and cs: "list_all is_name_char cs"
    by (auto simp: is_ascii_name_def is_ascii_identifier_def split: list.splits)
  from cs have "CHR ''}'' \<notin> set cs"
    using name_char_not_brace by (auto simp: list_all_iff)
  with c n show ?thesis using name_start_not_special [OF c] by auto
qed

lemma resolve_fstring_name:
  assumes "is_ascii_name n"
  shows "resolve_fstring bi self (CHR ''{'' # n @ ''}'') = replacer bi self n"
proof -
  from name_is_expression [OF assms] have "n \<noteq> []" "CHR ''}'' \<notin> set n" by auto
  from pattern_sub_placeholder [OF this, of "replacer bi self" "[]"]
  show ?thesis by (simp add: resolve_fstring_def)
qed

lemma replacer_of_name:
  assumes "is_ascii_name n"
  shows "replacer bi self n =
     (case load_name bi [''__builtins__'' \<mapsto> builtins_dict bi] (context self) n of
        Inr v \<Rightarrow> Some (Returned (py_str v), [])
      | Inl e \<Rightarrow>
          if is_Exception e then Some (Returned (''{'' @ n @ ''}''), [Failed_to_resolve n e])
          else Some (Raised e, []))"
  by (simp add: replacer_def py_eval_name [OF assms] split: sum.splits)

lemma load_name_local: "l n = Some v \<Longrightarrow> load_name bi g l n = Inr v"
  by (simp add: load_name_def)

lemma load_name_builtin:
  "l n = None \<Longrightarrow> n \<noteq> ''__builtins__'' \<Longrightarrow> map_of bi n = Some v \<Longrightarrow>
   load_name bi [''__builtins__'' \<mapsto> w] l n = Inr v"
  by (simp add: load_name_def)

lemma load_name_unknown:
  "l n = None \<Longrightarrow> n \<noteq> ''__builtins__'' \<Longrightarrow> map_of bi n = None \<Longrightarrow>
   load_name bi [''__builtins__'' \<mapsto> w] l n = Inl (NameError n)"
  by (simp add: load_name_def)

lemma is_ascii_name_examples:
  "is_ascii_name ''len''" "is_ascii_name ''x''" "is_ascii_name ''y''" "is_ascii_name ''undefined_name''" "is_ascii_name ''limit''"
  by (simp_all add: is_ascii_name_def is_ascii_identifier_def is_name_start_def is_name_char_def is_digit_def kwlist_def)

lemma resolve_fstring_of_name:
  assumes "is_ascii_name n"
  shows "resolve_fstring bi self (''{'' @ n @ ''}'') =
     (case context self n of
        Some v \<Rightarrow> Some (Returned (py_str v), [])
      | None \<Rightarrow>
          if n = ''__builtins__'' then Some (Returned (py_str (builtins_dict bi)), [])
          else (case map_of bi n of
                  Some v \<Rightarrow> Some (Returned (py_str v), [])
                | None \<Rightarrow> Some (Returned (''{'' @ n @ ''}''), [Failed_to_resolve n (NameError n)])))"
  using assms
  by (simp add: resolve_fstring_name replacer_of_name load_name_def split: option.splits)

section \<open>Composition of the resolver\<close>

lemma resolve_fstring_append:
  "brace_closed pre \<Longrightarrow>
   resolve_fstring bi self (pre @ rest)
     = followed_by (resolve_fstring bi self pre) (resolve_fstring bi self rest)"
  by (simp add: resolve_fstring_def pattern_sub_append)

lemma resolve_fstring_placeholder:
  "e \<noteq> [] \<Longrightarrow> CHR ''}'' \<notin> set e \<Longrightarrow>
   resolve_fstring bi self (''{'' @ e @ ''}'' @ post)
     = followed_by (replacer bi self e) (resolve_fstring bi self post)"
  using pattern_sub_placeholder [of e "replacer bi self" post]
  by (simp add: resolve_fstring_def)

lemma resolve_fstring_name_at:
  assumes "is_ascii_name n" and "brace_closed pre"
  shows "resolve_fstring bi self (pre @ ''{'' @ n @ ''}'' @ post) =
     followed_by (resolve_fstring bi self pre)
       (followed_by (replacer bi self n) (resolve_fstring bi self post))"
proof -
  from name_is_expression [OF assms(1)] have "n \<noteq> []" "CHR ''}'' \<notin> set n" by auto
  from resolve_fstring_placeholder [OF this, of bi self post]
    resolve_fstring_append [OF assms(2), of bi self "''{'' @ n @ ''}'' @ post"]
  show ?thesis by simp
qed

lemma resolve_elems_collect:
  "resolve_elems bi self xs = collect (map (resolve_placeholders bi self) xs)"
  by (induction xs) simp_all

lemma resolve_items_collect:
  "resolve_items bi self kvs =
     collect (map (\<lambda>(k, v). wrapped (Pair k) (resolve_placeholders bi self v)) kvs)"
proof (induction kvs)
  case Nil
  then show ?case by simp
next
  case (Cons kv kvs)
  obtain k v where kv: "kv = (k, v)" by (cases kv)
  have "wrapped (\<lambda>r. [(k, r)]) r = wrapped (\<lambda>p. [p]) (wrapped (Pair k) r)" for r :: "pyval printed"
    by (auto simp: wrapped_def split: option.splits result.splits)
  with Cons kv show ?case by simp
qed

lemma collect_ReturnedD:
  "collect rs = Some (Returned ys, d) \<Longrightarrow>
   length ys = length rs \<and> (\<forall>i<length rs. \<exists>di. rs ! i = Some (Returned (ys ! i), di))"
proof (induction rs arbitrary: ys d)
  case Nil
  then show ?case by simp
next
  case (Cons r rs)
  from Cons.prems obtain y dy where r: "r = Some (Returned y, dy)"
    by (auto simp: followed_by_def wrapped_def split: option.splits result.splits)
  with Cons.prems obtain ys' d' where c: "collect rs = Some (Returned ys', d')" and ys: "ys = y # ys'"
    by (auto simp: followed_by_def wrapped_def split: option.splits result.splits)
  from Cons.IH [OF c] have ih: "length ys' = length rs"
    "\<forall>i<length rs. \<exists>di. rs ! i = Some (Returned (ys' ! i), di)" by auto
  show ?case
  proof (intro conjI allI impI)
    show "length ys = length (r # rs)" using ih(1) ys by simp
    fix i assume "i < length (r # rs)"
    then show "\<exists>di. (r # rs) ! i = Some (Returned (ys ! i), di)"
      using ih(2) r ys by (cases i) auto
  qed
qed

section \<open>Expressions that read Context only\<close>



section \<open>Runs on the sample contexts\<close>

lemma str_examples:
  "py_str (PInt 15) = ''15''" "py_str (PInt 1) = ''1''" "py_str (PInt 2) = ''2''"
  "py_str (PInt 5) = ''5''" "py_str (PInt 7) = ''7''" "py_str (PInt 10) = ''10''"
  "py_str (PBuiltin ''len'') = ''<built-in function len>''"
  by code_simp+

lemma builtins_runs:
  "map_of python_builtins ''len'' = Some (PBuiltin ''len'')"
  "map_of python_builtins ''limit'' = None"
  "map_of python_builtins ''undefined_name'' = None"
  by code_simp+

lemma xy_runs:
  "resolve_fstring python_builtins xy_context ''a={x} '' = Some (Returned ''a=5 '', [])"
  "resolve_fstring python_builtins xy_context '' {y}'' = Some (Returned '' 10'', [])"
  "resolve_fstring python_builtins xy_context ''sum={x+y}'' = Some (Returned ''sum=15'', [])"
  "resolve_fstring python_builtins xy_context ''sum=15'' = Some (Returned ''sum=15'', [])"
  "resolve_fstring python_builtins xy_context ''plain {} text'' = Some (Returned ''plain {} text'', [])"
  "py_eval python_builtins ''1 + None'' Map.empty (context xy_context)
     = Some (Inl (unsupported ''+'' (PInt 1) PNone))"
  "py_eval python_builtins ''1 +'' Map.empty (context xy_context) = Some (Inl SyntaxError)"
  "brace_closed ''a={x} ''" "\<not> pattern_search ''sum=15''" "\<not> pattern_search ''plain {} text''"
  "resolve_fstring python_builtins xy_context ''{x#{}'' = Some (Returned ''5'', [])"
  "resolve_fstring python_builtins xy_context ''{1 +}''
     = Some (Returned ''{1 +}'', [Failed_to_resolve ''1 +'' SyntaxError])"
  "resolve_fstring python_builtins xy_context ''{x/0}''
     = Some (Returned ''{x/0}'', [Failed_to_resolve ''x/0'' ZeroDivisionError])"
  "py_eval python_builtins ''exit()'' Map.empty (context xy_context) = Some (Inl SystemExit)"
  "resolve_fstring python_builtins xy_context '' {limit}''
     = Some (Returned '' {limit}'', [Failed_to_resolve ''limit'' (NameError ''limit'')])"
  "context xy_context ''len'' = None" "context xy_context ''undefined_name'' = None"
  "context xy_context ''x'' = Some (PInt 5)"
  by code_simp+

lemma nested_runs:
  "py_eval python_builtins ''x'' Map.empty (context nested_context) = Some (Inr (PStr ''{y}''))"
  "resolve_fstring python_builtins nested_context ''{y}'' = Some (Returned ''2'', [])"
  "resolve_fstring python_builtins nested_context ''{x}'' = Some (Returned ''{y}'', [])"
  by code_simp+

lemma one_two_runs:
  "resolve_placeholders python_builtins one_two_context
     (PDict [(PStr ''a'', PStr ''{x}''), (PStr ''b'', PList [PStr ''{y}'', PInt 3])])
   = Some (Returned (PDict [(PStr ''a'', PStr ''1''), (PStr ''b'', PList [PStr ''2'', PInt 3])]), [])"
  "resolve_placeholders python_builtins one_two_context (PList [PStr ''{y}'', PInt 3])
   = Some (Returned (PList [PStr ''2'', PInt 3]), [])"
  "resolve_placeholders python_builtins one_two_context (PStr ''{x}'') = Some (Returned (PStr ''1''), [])"
  "resolve_fstring python_builtins one_two_context ''{x}'' = Some (Returned ''1'', [])"
  "resolve_placeholders python_builtins one_two_context (PTuple [PStr ''{x}'', PInt 3])
   = Some (Returned (PTuple [PStr ''{x}'', PInt 3]), [])"
  by code_simp+

lemma hyphen_runs:
  "context hyphen_context ''user-id'' = Some (PInt 7)"
  "resolve_fstring python_builtins hyphen_context ''{user-id}''
     = Some (Returned ''{user-id}'', [Failed_to_resolve ''user-id'' (NameError ''user'')])"
  by code_simp+

lemma limit_runs:
  "resolve_fstring python_builtins empty_context ''{limit}''
     = Some (Returned ''{limit}'', [Failed_to_resolve ''limit'' (NameError ''limit'')])"
  "resolve_fstring ((''limit'', PInt 10) # python_builtins) empty_context ''{limit}''
     = Some (Returned ''10'', [])"
  "resolve_fstring python_builtins empty_context ''{exit()}'' = Some (Raised SystemExit, [])"
  "resolve_fstring python_builtins empty_context ''{len}''
     = Some (Returned ''<built-in function len>'', [])"
  "context empty_context ''len'' = None"
  by code_simp+


section \<open>The claims\<close>

text \<open>
  C1. The claim: a placeholder expression is evaluated against the Context mapping alone, so
  that a name absent from Context is found nowhere, neither among globals nor among
  builtins. It fails at the template \<^verbatim>\<open>{len}\<close> with an empty Context: \<^verbatim>\<open>eval\<close> is given an empty
  globals dictionary, to which it adds the builtins, and the name resolves to the built-in
  function.
\<close>

theorem builtin_name_resolves_without_context:
  "context empty_context ''len'' = None
   \<and> resolve_fstring python_builtins empty_context ''{len}''
       = Some (Returned ''<built-in function len>'', [])"
  using limit_runs(4,5) by simp

text \<open>
  C1, as the code has it, for a placeholder that consists of one name written in ASCII (an
  identifier of ASCII letters, digits and underscores that is neither a keyword nor
  \<^verbatim>\<open>__debug__\<close>), at any place of a template. The name is looked up in Context first. A
  name absent from Context is looked up in the globals of the call, which hold
  \<^verbatim>\<open>__builtins__\<close> and nothing else, and then among the builtins of the interpreter, so a
  name outside Context can resolve. Only a name found in none of them makes the evaluation
  fail, with \<^verbatim>\<open>NameError\<close>, and then the placeholder stays as it is and a diagnostic is
  printed.
\<close>

theorem name_lookup_context_then_builtins:
  assumes "is_ascii_name n" and "brace_closed pre"
  shows "resolve_fstring bi self (pre @ ''{'' @ n @ ''}'' @ post) =
     followed_by (resolve_fstring bi self pre)
       (followed_by
          (case context self n of
             Some v \<Rightarrow> Some (Returned (py_str v), [])
           | None \<Rightarrow>
               if n = ''__builtins__'' then Some (Returned (py_str (builtins_dict bi)), [])
               else (case map_of bi n of
                       Some v \<Rightarrow> Some (Returned (py_str v), [])
                     | None \<Rightarrow>
                         Some (Returned (''{'' @ n @ ''}''), [Failed_to_resolve n (NameError n)])))
          (resolve_fstring bi self post))"
proof -
  have "replacer bi self n =
     (case context self n of
        Some v \<Rightarrow> Some (Returned (py_str v), [])
      | None \<Rightarrow>
          if n = ''__builtins__'' then Some (Returned (py_str (builtins_dict bi)), [])
          else (case map_of bi n of
                  Some v \<Rightarrow> Some (Returned (py_str v), [])
                | None \<Rightarrow>
                    Some (Returned (''{'' @ n @ ''}''), [Failed_to_resolve n (NameError n)])))"
    using assms(1) by (simp add: replacer_of_name load_name_def split: option.splits)
  with resolve_fstring_name_at [OF assms, of bi self post] show ?thesis by simp
qed

theorem name_lookup_context_then_builtins_witness:
  "is_ascii_name ''len'' \<and> brace_closed ''a={x} ''
   \<and> resolve_fstring python_builtins xy_context ''a={x} {len} {limit}''
       = Some (Returned ''a=5 <built-in function len> {limit}'',
               [Failed_to_resolve ''limit'' (NameError ''limit'')])"
  using name_lookup_context_then_builtins [OF is_ascii_name_examples(1) xy_runs(8),
      of python_builtins xy_context "'' {limit}''"]
    is_ascii_name_examples(1) xy_runs(8)
  by (simp add: xy_runs(1,15,16) builtins_runs(1) str_examples(7))

text \<open>
  C2. The claim: every sequence comes back as a sequence of the same length with every
  element resolved, and every mapping with every value resolved. The code tests for
  \<^verbatim>\<open>list\<close> and \<^verbatim>\<open>dict\<close> only: a tuple is a sequence, yet \<^verbatim>\<open>("{x}", 3)\<close> comes back as it is,
  its first element unresolved, although \<^verbatim>\<open>"{x}"\<close> alone resolves to \<^verbatim>\<open>"1"\<close>.
\<close>

theorem tuple_elements_not_resolved:
  "resolve_placeholders python_builtins one_two_context (PTuple [PStr ''{x}'', PInt 3])
     = Some (Returned (PTuple [PStr ''{x}'', PInt 3]), [])
   \<and> resolve_placeholders python_builtins one_two_context (PStr ''{x}'')
     = Some (Returned (PStr ''1''), [])"
  using one_two_runs(3,5) by simp

text \<open>
  C2, as the code has it. \<^verbatim>\<open>_resolve_placeholders\<close> has four cases. A \<^verbatim>\<open>str\<close> is handed to
  \<^verbatim>\<open>_resolve_fstring\<close>. A \<^verbatim>\<open>dict\<close> gives a \<^verbatim>\<open>dict\<close> with the same keys in the same order, each
  value resolved recursively. A \<^verbatim>\<open>list\<close> gives a \<^verbatim>\<open>list\<close> of the same length, each element
  resolved recursively at its position. Every other value, a tuple among them, comes back
  unchanged with nothing printed. The parts are resolved in their order, their
  diagnostics follow each other in that order, and an exception that a part lets out ends
  the walk.
\<close>

theorem resolve_placeholders_by_type:
  "resolve_placeholders bi self (PStr s) = wrapped PStr (resolve_fstring bi self s)
   \<and> resolve_placeholders bi self (PDict kvs) =
       wrapped PDict
         (collect (map (\<lambda>(k, v). wrapped (Pair k) (resolve_placeholders bi self v)) kvs))
   \<and> (\<forall>r d. resolve_placeholders bi self (PDict kvs) = Some (Returned r, d) \<longrightarrow>
         (\<exists>kvs'. r = PDict kvs' \<and> map fst kvs' = map fst kvs
            \<and> (\<forall>i<length kvs. \<exists>di.
                  resolve_placeholders bi self (snd (kvs ! i)) = Some (Returned (snd (kvs' ! i)), di))))
   \<and> resolve_placeholders bi self (PList xs) =
       wrapped PList (collect (map (resolve_placeholders bi self) xs))
   \<and> (\<forall>r d. resolve_placeholders bi self (PList xs) = Some (Returned r, d) \<longrightarrow>
         (\<exists>xs'. r = PList xs' \<and> length xs' = length xs
            \<and> (\<forall>i<length xs. \<exists>di.
                  resolve_placeholders bi self (xs ! i) = Some (Returned (xs' ! i), di))))
   \<and> resolve_placeholders bi self (PTuple xs) = Some (Returned (PTuple xs), [])
   \<and> ((\<forall>s. v \<noteq> PStr s) \<and> (\<forall>kvs. v \<noteq> PDict kvs) \<and> (\<forall>xs. v \<noteq> PList xs) \<longrightarrow>
         resolve_placeholders bi self v = Some (Returned v, []))"
proof (intro conjI allI impI)
  show "resolve_placeholders bi self (PStr s) = wrapped PStr (resolve_fstring bi self s)"
    by simp
  show d: "resolve_placeholders bi self (PDict kvs) =
       wrapped PDict
         (collect (map (\<lambda>(k, v). wrapped (Pair k) (resolve_placeholders bi self v)) kvs))"
    by (simp add: resolve_items_collect)
  show l: "resolve_placeholders bi self (PList xs) =
       wrapped PList (collect (map (resolve_placeholders bi self) xs))"
    by (simp add: resolve_elems_collect)
  show "resolve_placeholders bi self (PTuple xs) = Some (Returned (PTuple xs), [])"
    by simp
  show "resolve_placeholders bi self v = Some (Returned v, [])"
    if "(\<forall>s. v \<noteq> PStr s) \<and> (\<forall>kvs. v \<noteq> PDict kvs) \<and> (\<forall>xs. v \<noteq> PList xs)"
    using that by (cases v) auto
  {
    fix r d assume a: "resolve_placeholders bi self (PList xs) = Some (Returned r, d)"
    then obtain xs' where r: "r = PList xs'"
      and c: "collect (map (resolve_placeholders bi self) xs) = Some (Returned xs', d)"
      unfolding l by (auto simp: wrapped_def split: option.splits result.splits)
    from collect_ReturnedD [OF c]
    have "length xs' = length xs"
      "\<forall>i<length xs. \<exists>di. resolve_placeholders bi self (xs ! i) = Some (Returned (xs' ! i), di)"
      by auto
    with r show "\<exists>xs'. r = PList xs' \<and> length xs' = length xs
            \<and> (\<forall>i<length xs. \<exists>di.
                  resolve_placeholders bi self (xs ! i) = Some (Returned (xs' ! i), di))"
      by blast
  }
  {
    fix r d assume a: "resolve_placeholders bi self (PDict kvs) = Some (Returned r, d)"
    then obtain kvs' where r: "r = PDict kvs'"
      and c: "collect (map (\<lambda>(k, v). wrapped (Pair k) (resolve_placeholders bi self v)) kvs)
          = Some (Returned kvs', d)"
      unfolding d by (auto simp: wrapped_def split: option.splits result.splits)
    from collect_ReturnedD [OF c]
    have len: "length kvs' = length kvs"
      and el: "\<forall>i<length kvs. \<exists>di.
          wrapped (Pair (fst (kvs ! i))) (resolve_placeholders bi self (snd (kvs ! i)))
          = Some (Returned (kvs' ! i), di)"
      by (auto simp: case_prod_beta)
    have k: "fst (kvs' ! i) = fst (kvs ! i)
        \<and> (\<exists>di. resolve_placeholders bi self (snd (kvs ! i)) = Some (Returned (snd (kvs' ! i)), di))"
      if "i < length kvs" for i
    proof -
      from el that obtain di where
        "wrapped (Pair (fst (kvs ! i))) (resolve_placeholders bi self (snd (kvs ! i)))
          = Some (Returned (kvs' ! i), di)"
        by blast
      then show ?thesis
        by (cases "kvs' ! i") (auto simp: wrapped_def split: option.splits result.splits)
    qed
    have "map fst kvs' = map fst kvs"
      using len k by (auto intro: nth_equalityI)
    with r k show "\<exists>kvs'. r = PDict kvs' \<and> map fst kvs' = map fst kvs
            \<and> (\<forall>i<length kvs. \<exists>di.
                  resolve_placeholders bi self (snd (kvs ! i)) = Some (Returned (snd (kvs' ! i)), di))"
      by blast
  }
qed

theorem resolve_placeholders_by_type_witness:
  "resolve_placeholders python_builtins one_two_context (PStr ''{x}'') = Some (Returned (PStr ''1''), [])
   \<and> resolve_placeholders python_builtins one_two_context
       (PDict [(PStr ''a'', PStr ''{x}''), (PStr ''b'', PList [PStr ''{y}'', PInt 3])])
     = Some (Returned (PDict [(PStr ''a'', PStr ''1''), (PStr ''b'', PList [PStr ''2'', PInt 3])]), [])
   \<and> map fst [(PStr ''a'', PStr ''1''), (PStr ''b'', PList [PStr ''2'', PInt 3])]
     = map fst [(PStr ''a'', PStr ''{x}''), (PStr ''b'', PList [PStr ''{y}'', PInt 3])]
   \<and> resolve_placeholders python_builtins one_two_context (PList [PStr ''{y}'', PInt 3])
     = Some (Returned (PList [PStr ''2'', PInt 3]), [])
   \<and> length [PStr ''2'', PInt 3] = length [PStr ''{y}'', PInt 3]
   \<and> ((\<forall>s. PInt 3 \<noteq> PStr s) \<and> (\<forall>kvs. PInt 3 \<noteq> PDict kvs) \<and> (\<forall>xs. PInt 3 \<noteq> PList xs))
   \<and> resolve_placeholders python_builtins one_two_context (PInt 3) = Some (Returned (PInt 3), [])"
  using resolve_placeholders_by_type [of python_builtins one_two_context "''{x}''"
      "[(PStr ''a'', PStr ''{x}''), (PStr ''b'', PList [PStr ''{y}'', PInt 3])]"
      "[PStr ''{y}'', PInt 3]" "PInt 3"]
    one_two_runs(1,2,3)
  by simp

text \<open>
  C3. The claim: for every key \<open>k\<close> bound in Context the template \<^verbatim>\<open>{k}\<close> resolves to
  \<^verbatim>\<open>str(C[k])\<close>. The text between the braces is an expression, not a key: with the key
  \<^verbatim>\<open>user-id\<close> bound to 7 the template \<^verbatim>\<open>{user-id}\<close> is the difference of \<^verbatim>\<open>user\<close> and \<^verbatim>\<open>id\<close>,
  the evaluation fails on the unknown name \<^verbatim>\<open>user\<close>, and the placeholder stays.
\<close>

theorem hyphenated_key_not_looked_up:
  "context hyphen_context ''user-id'' = Some (PInt 7)
   \<and> py_str (PInt 7) = ''7''
   \<and> resolve_fstring python_builtins hyphen_context ''{user-id}''
       = Some (Returned ''{user-id}'', [Failed_to_resolve ''user-id'' (NameError ''user'')])"
  using hyphen_runs str_examples by simp

text \<open>
  C3, as the code has it: for every key \<open>k\<close> bound in Context that is a name written in
  ASCII (an identifier of ASCII letters, digits and underscores that is neither a keyword
  nor \<^verbatim>\<open>__debug__\<close>), the template \<^verbatim>\<open>{k}\<close> resolves to \<^verbatim>\<open>str(C[k])\<close>, whatever the builtins
  hold, and nothing is printed.
\<close>

theorem bound_ascii_name_resolves_to_str:
  assumes "is_ascii_name k" and "context self k = Some v"
  shows "resolve_fstring bi self (''{'' @ k @ ''}'') = Some (Returned (py_str v), [])"
  using resolve_fstring_of_name [OF assms(1), of bi self] assms(2) by simp

theorem bound_ascii_name_resolves_to_str_witness:
  "is_ascii_name ''x''
   \<and> context xy_context ''x'' = Some (PInt 5)
   \<and> resolve_fstring python_builtins xy_context ''{x}'' = Some (Returned ''5'', [])"
  using bound_ascii_name_resolves_to_str [OF is_ascii_name_examples(2) xy_runs(18), of python_builtins]
    is_ascii_name_examples(2) xy_runs(18)
  by (simp add: str_examples)

text \<open>
  C4. The claim: no exception ever leaves \<^verbatim>\<open>_resolve_fstring\<close>. The handler is
  \<^verbatim>\<open>except Exception\<close>, and \<^verbatim>\<open>SystemExit\<close> is no \<^verbatim>\<open>Exception\<close>: the template \<^verbatim>\<open>{exit()}\<close> calls
  the builtin \<^verbatim>\<open>exit\<close>, and the \<^verbatim>\<open>SystemExit\<close> it raises reaches the caller.
\<close>

theorem system_exit_leaves_resolve_fstring:
  "resolve_fstring python_builtins empty_context ''{exit()}'' = Some (Raised SystemExit, [])"
  by (rule limit_runs(3))

text \<open>
  C4, as the code has it. A placeholder whose evaluation raises an instance of
  \<^verbatim>\<open>Exception\<close> (an unknown name, a malformed expression, an error at run time) is left in
  the output as it stands, one diagnostic with the expression and the error is printed
  for it, the text before and behind it is resolved as if the placeholder were not there,
  and this exception does not leave \<^verbatim>\<open>_resolve_fstring\<close>. An exception that is no instance
  of \<^verbatim>\<open>Exception\<close> leaves \<^verbatim>\<open>_resolve_fstring\<close> at once, and the text behind the placeholder is
  not looked at. The placeholder may stand behind any text \<open>pre\<close> in which every opening
  brace is closed, so that no earlier match runs into it, and before any text \<open>post\<close>.
  The template \<^verbatim>\<open>{undefined_name}\<close> comes back as it is when \<^verbatim>\<open>undefined_name\<close> is bound
  neither in Context nor among the builtins.
\<close>

theorem failing_placeholder_left_in_place:
  "(brace_closed pre \<and> e \<noteq> [] \<and> CHR ''}'' \<notin> set e
      \<and> py_eval bi e Map.empty (context self) = Some (Inl x) \<and> is_Exception x \<longrightarrow>
    resolve_fstring bi self (pre @ ''{'' @ e @ ''}'' @ post) =
      followed_by (resolve_fstring bi self pre)
        (followed_by (Some (Returned (''{'' @ e @ ''}''), [Failed_to_resolve e x]))
           (resolve_fstring bi self post)))
   \<and> (brace_closed pre \<and> e \<noteq> [] \<and> CHR ''}'' \<notin> set e
      \<and> py_eval bi e Map.empty (context self) = Some (Inl x) \<and> \<not> is_Exception x \<longrightarrow>
    resolve_fstring bi self (pre @ ''{'' @ e @ ''}'' @ post) =
      followed_by (resolve_fstring bi self pre) (Some (Raised x, [])))
   \<and> (context self ''undefined_name'' = None \<and> map_of bi ''undefined_name'' = None \<longrightarrow>
    resolve_fstring bi self ''{undefined_name}'' =
      Some (Returned ''{undefined_name}'',
            [Failed_to_resolve ''undefined_name'' (NameError ''undefined_name'')]))"
proof (intro conjI impI)
  assume a: "brace_closed pre \<and> e \<noteq> [] \<and> CHR ''}'' \<notin> set e
      \<and> py_eval bi e Map.empty (context self) = Some (Inl x) \<and> is_Exception x"
  then have "replacer bi self e = Some (Returned (''{'' @ e @ ''}''), [Failed_to_resolve e x])"
    by (simp add: replacer_def)
  with a show "resolve_fstring bi self (pre @ ''{'' @ e @ ''}'' @ post) =
      followed_by (resolve_fstring bi self pre)
        (followed_by (Some (Returned (''{'' @ e @ ''}''), [Failed_to_resolve e x]))
           (resolve_fstring bi self post))"
    using resolve_fstring_append [of pre bi self "''{'' @ e @ ''}'' @ post"]
      resolve_fstring_placeholder [of e bi self post]
    by simp
next
  assume a: "brace_closed pre \<and> e \<noteq> [] \<and> CHR ''}'' \<notin> set e
      \<and> py_eval bi e Map.empty (context self) = Some (Inl x) \<and> \<not> is_Exception x"
  then have "replacer bi self e = Some (Raised x, [])"
    by (simp add: replacer_def)
  with a show "resolve_fstring bi self (pre @ ''{'' @ e @ ''}'' @ post) =
      followed_by (resolve_fstring bi self pre) (Some (Raised x, []))"
    using resolve_fstring_append [of pre bi self "''{'' @ e @ ''}'' @ post"]
      resolve_fstring_placeholder [of e bi self post]
    by simp
next
  assume "context self ''undefined_name'' = None \<and> map_of bi ''undefined_name'' = None"
  then show "resolve_fstring bi self ''{undefined_name}'' =
      Some (Returned ''{undefined_name}'',
            [Failed_to_resolve ''undefined_name'' (NameError ''undefined_name'')])"
    using resolve_fstring_of_name [OF is_ascii_name_examples(4), of bi self] by simp
qed

theorem failing_placeholder_left_in_place_witness:
  "(brace_closed ''a={x} '' \<and> ''1 + None'' \<noteq> [] \<and> CHR ''}'' \<notin> set ''1 + None''
      \<and> py_eval python_builtins ''1 + None'' Map.empty (context xy_context)
          = Some (Inl (unsupported ''+'' (PInt 1) PNone))
      \<and> is_Exception (unsupported ''+'' (PInt 1) PNone))
   \<and> resolve_fstring python_builtins xy_context ''a={x} {1 + None} {y}''
       = Some (Returned ''a=5 {1 + None} 10'',
               [Failed_to_resolve ''1 + None'' (unsupported ''+'' (PInt 1) PNone)])
   \<and> (''exit()'' \<noteq> [] \<and> CHR ''}'' \<notin> set ''exit()''
      \<and> py_eval python_builtins ''exit()'' Map.empty (context xy_context) = Some (Inl SystemExit)
      \<and> \<not> is_Exception SystemExit)
   \<and> resolve_fstring python_builtins xy_context ''a={x} {exit()} {y}'' = Some (Raised SystemExit, [])
   \<and> resolve_fstring python_builtins xy_context ''{1 +}''
       = Some (Returned ''{1 +}'', [Failed_to_resolve ''1 +'' SyntaxError])
   \<and> resolve_fstring python_builtins xy_context ''{x/0}''
       = Some (Returned ''{x/0}'', [Failed_to_resolve ''x/0'' ZeroDivisionError])
   \<and> (context xy_context ''undefined_name'' = None \<and> map_of python_builtins ''undefined_name'' = None)
   \<and> resolve_fstring python_builtins xy_context ''{undefined_name}''
       = Some (Returned ''{undefined_name}'',
               [Failed_to_resolve ''undefined_name'' (NameError ''undefined_name'')])"
proof -
  have u: "context xy_context ''undefined_name'' = None \<and> map_of python_builtins ''undefined_name'' = None"
    using xy_runs(17) builtins_runs(3) by simp
  have h: "brace_closed ''a={x} '' \<and> ''1 + None'' \<noteq> [] \<and> CHR ''}'' \<notin> set ''1 + None''
      \<and> py_eval python_builtins ''1 + None'' Map.empty (context xy_context)
          = Some (Inl (unsupported ''+'' (PInt 1) PNone))
      \<and> is_Exception (unsupported ''+'' (PInt 1) PNone)"
    using xy_runs(6,8) by (simp add: unsupported_def)
  have s: "brace_closed ''a={x} '' \<and> ''exit()'' \<noteq> [] \<and> CHR ''}'' \<notin> set ''exit()''
      \<and> py_eval python_builtins ''exit()'' Map.empty (context xy_context) = Some (Inl SystemExit)
      \<and> \<not> is_Exception SystemExit"
    using xy_runs(8,14) by simp
  show ?thesis
    using failing_placeholder_left_in_place [of "''a={x} ''" "''1 + None''" python_builtins xy_context
        "unsupported ''+'' (PInt 1) PNone" "'' {y}''"]
      failing_placeholder_left_in_place [of "''a={x} ''" "''exit()''" python_builtins xy_context
        SystemExit "'' {y}''"]
      h s u
    by (simp add: xy_runs(1,2,12,13))
qed




text \<open>
  C6. A template in which the pattern matches nowhere is returned unchanged and nothing
  is printed. Hence resolving is idempotent on resolved output: when the string returned
  for a template has no placeholder left, resolving that string returns it unchanged.
\<close>

theorem template_without_placeholder_unchanged:
  "(\<not> pattern_search t \<longrightarrow> resolve_fstring bi self t = Some (Returned t, []))
   \<and> (resolve_fstring bi self t = Some (Returned r, d) \<and> \<not> pattern_search r \<longrightarrow>
        resolve_fstring bi self r = Some (Returned r, []))"
  by (simp add: resolve_fstring_def pattern_sub_no_match)

theorem template_without_placeholder_unchanged_witness:
  "\<not> pattern_search ''plain {} text''
   \<and> resolve_fstring python_builtins xy_context ''plain {} text'' = Some (Returned ''plain {} text'', [])
   \<and> resolve_fstring python_builtins xy_context ''sum={x+y}'' = Some (Returned ''sum=15'', [])
   \<and> \<not> pattern_search ''sum=15''
   \<and> resolve_fstring python_builtins xy_context ''sum=15'' = Some (Returned ''sum=15'', [])"
  using template_without_placeholder_unchanged [of "''plain {} text''" python_builtins xy_context "''plain {} text''" "[]"]
    template_without_placeholder_unchanged [of "''sum={x+y}''" python_builtins xy_context "''sum=15''" "[]"]
    xy_runs(3,9,10)
  by simp

text \<open>
  C7. The two end-to-end vectors: Context \<^verbatim>\<open>{"x": 5, "y": 10}\<close> and the template
  \<^verbatim>\<open>sum={x+y}\<close> give \<^verbatim>\<open>sum=15\<close>; Context \<^verbatim>\<open>{"x": 1, "y": 2}\<close> and the structure
  \<^verbatim>\<open>{"a": "{x}", "b": ["{y}", 3]}\<close> give \<^verbatim>\<open>{"a": "1", "b": ["2", 3]}\<close>. Both calls return, and
  nothing is printed.
\<close>

theorem end_to_end_vectors:
  "resolve_fstring python_builtins xy_context ''sum={x+y}'' = Some (Returned ''sum=15'', [])
   \<and> resolve_placeholders python_builtins one_two_context
       (PDict [(PStr ''a'', PStr ''{x}''), (PStr ''b'', PList [PStr ''{y}'', PInt 3])])
     = Some (Returned (PDict [(PStr ''a'', PStr ''1''), (PStr ''b'', PList [PStr ''2'', PInt 3])]), [])"
  using xy_runs(3) one_two_runs(1) by simp

text \<open>
  C8. \<^verbatim>\<open>_resolve_ref\<close> removes one leading \<^verbatim>\<open>$\<close> from a string and does nothing else: the rest
  of the string is returned whatever Context holds, a string without the sigil and a value
  that is no string are returned unchanged. \<^verbatim>\<open>$foo\<close> gives \<^verbatim>\<open>foo\<close>, \<^verbatim>\<open>foo\<close> gives \<^verbatim>\<open>foo\<close>,
  42 gives 42.
\<close>

theorem resolve_ref_strips_one_sigil:
  "resolve_ref self (PStr (CHR ''$'' # s)) = PStr s
   \<and> (\<not> startswith s (CHR ''$'') \<longrightarrow> resolve_ref self (PStr s) = PStr s)
   \<and> ((\<forall>t. v \<noteq> PStr t) \<longrightarrow> resolve_ref self v = v)
   \<and> resolve_ref self (PStr ''$foo'') = PStr ''foo''
   \<and> resolve_ref self (PStr ''foo'') = PStr ''foo''
   \<and> resolve_ref self (PInt 42) = PInt 42"
  by (cases v) (simp_all add: resolve_ref_def)

theorem resolve_ref_strips_one_sigil_witness:
  "\<not> startswith ''foo'' (CHR ''$'') \<and> (\<forall>t. PInt 42 \<noteq> PStr t)
   \<and> resolve_ref \<lparr>steps = [], context = [''foo'' \<mapsto> PInt 1], resource = None\<rparr> (PStr ''$$foo'') = PStr ''$foo''
   \<and> resolve_ref \<lparr>steps = [], context = [''foo'' \<mapsto> PInt 1], resource = None\<rparr> (PStr ''foo'') = PStr ''foo''
   \<and> resolve_ref \<lparr>steps = [], context = [''foo'' \<mapsto> PInt 1], resource = None\<rparr> (PInt 42) = PInt 42"
  using resolve_ref_strips_one_sigil [of "\<lparr>steps = [], context = [''foo'' \<mapsto> PInt 1], resource = None\<rparr>" "''foo''" "PInt 42"]
    resolve_ref_strips_one_sigil [of "\<lparr>steps = [], context = [''foo'' \<mapsto> PInt 1], resource = None\<rparr>" "''$foo''" "PInt 42"]
  by simp

text \<open>
  C9. The claim: in every template every occurrence of \<^verbatim>\<open>{}\<close> is left as it is and causes
  no evaluation. It fails when the opening brace of the pair lies inside a placeholder:
  in \<^verbatim>\<open>{x#{}\<close> the pattern matches the whole text, the expression is \<^verbatim>\<open>x#{\<close>, a name followed
  by a comment, and with \<open>x\<close> bound to 5 the result is \<^verbatim>\<open>5\<close>.
\<close>

theorem empty_braces_inside_placeholder_consumed:
  "resolve_fstring python_builtins xy_context ''{x#{}'' = Some (Returned ''5'', [])"
  by (rule xy_runs(11))

text \<open>
  C9, as the code has it: an empty pair of braces is no placeholder. Where it stands
  outside every placeholder, that is behind a text in which every opening brace is
  closed, it is copied to the output, nothing is evaluated or printed for it, and the
  texts before and behind it are resolved on their own. \<^verbatim>\<open>{}\<close> alone gives \<^verbatim>\<open>{}\<close>.
\<close>

theorem empty_braces_outside_placeholder_kept:
  "(brace_closed pre \<longrightarrow>
      resolve_fstring bi self (pre @ ''{}'' @ post) =
        followed_by (resolve_fstring bi self pre)
          (followed_by (Some (Returned ''{}'', [])) (resolve_fstring bi self post)))
   \<and> resolve_fstring bi self ''{}'' = Some (Returned ''{}'', [])"
proof (intro conjI impI)
  have e: "resolve_fstring bi self (''{}'' @ post) =
      followed_by (Some (Returned ''{}'', [])) (resolve_fstring bi self post)" for post
    using pattern_sub_empty_braces [of "replacer bi self" post]
    by (simp add: resolve_fstring_def)
  from e [of "[]"] show "resolve_fstring bi self ''{}'' = Some (Returned ''{}'', [])"
    by (simp add: resolve_fstring_def)
  assume "brace_closed pre"
  then show "resolve_fstring bi self (pre @ ''{}'' @ post) =
        followed_by (resolve_fstring bi self pre)
          (followed_by (Some (Returned ''{}'', [])) (resolve_fstring bi self post))"
    using resolve_fstring_append [of pre bi self "''{}'' @ post"] e [of post] by simp
qed

theorem empty_braces_outside_placeholder_kept_witness:
  "brace_closed ''a={x} ''
   \<and> resolve_fstring python_builtins xy_context ''a={x} {} {y}'' = Some (Returned ''a=5 {} 10'', [])"
  using empty_braces_outside_placeholder_kept [of "''a={x} ''" python_builtins xy_context "'' {y}''"]
    xy_runs(8)
  by (simp add: xy_runs(1,2))

text \<open>
  C10. The substitution is a single pass over the template: when the expression of a
  placeholder evaluates to a string, that string is put into the output as it is, also
  when it holds a placeholder itself, and the scan goes on behind the placeholder in the
  template. With Context \<^verbatim>\<open>{"x": "{y}", "y": 2}\<close> the template \<^verbatim>\<open>{x}\<close> gives \<^verbatim>\<open>{y}\<close>, not 2.
\<close>

theorem substituted_text_not_rescanned:
  assumes "brace_closed pre" and "e \<noteq> []" and "CHR ''}'' \<notin> set e"
    and "py_eval bi e Map.empty (context self) = Some (Inr (PStr s))"
  shows "resolve_fstring bi self (pre @ ''{'' @ e @ ''}'' @ post) =
      followed_by (resolve_fstring bi self pre)
        (followed_by (Some (Returned s, [])) (resolve_fstring bi self post))"
proof -
  from assms(4) have "replacer bi self e = Some (Returned s, [])"
    by (simp add: replacer_def py_str_def)
  then show ?thesis
    using resolve_fstring_append [OF assms(1), of bi self "''{'' @ e @ ''}'' @ post"]
      resolve_fstring_placeholder [OF assms(2,3), of bi self post]
    by simp
qed

theorem substituted_text_not_rescanned_witness:
  "brace_closed [] \<and> ''x'' \<noteq> [] \<and> CHR ''}'' \<notin> set ''x''
   \<and> py_eval python_builtins ''x'' Map.empty (context nested_context) = Some (Inr (PStr ''{y}''))
   \<and> resolve_fstring python_builtins nested_context ''{x}'' = Some (Returned ''{y}'', [])
   \<and> resolve_fstring python_builtins nested_context ''{y}'' = Some (Returned ''2'', [])"
proof -
  have "resolve_fstring python_builtins nested_context [] = Some (Returned [], [])"
    by (simp add: resolve_fstring_def)
  then show ?thesis
    using substituted_text_not_rescanned [of "[]" "''x''" python_builtins nested_context "''{y}''" "[]"]
      nested_runs(1,2)
    by simp
qed

end
